theory Spec2Isabelle
  imports Complex_Main
begin

section \<open>The AI Carpenter bot (AI_Carpenter_Bot/index.js)\<close>

text \<open>
  The script reads a build plan, connects a game-client bot, fixes an origin and replays
  the plan's instructions as chat commands. Its effects (console output, chat messages,
  tick waits, process exit) are modelled as a list of events in the order the script
  performs them. What the script only consumes (the file system, the JavaScript runtime's
  number parsing and printing, the game world) is a record of functions it is run against.

  JavaScript numbers are modelled as reals: the rounding of IEEE doubles, \<open>NaN\<close> and the
  infinities are outside the model. Text that is not ASCII is given as its UTF-8 bytes.
  A lost connection or a kick, after which the library's waits never return, is outside
  the model too: every wait returns.
\<close>

subsection \<open>Vectors (the vec3 package)\<close>

datatype vec3 = Vec3 (vx: real) (vy: real) (vz: real)

definition offset :: "vec3 \<Rightarrow> real \<Rightarrow> real \<Rightarrow> real \<Rightarrow> vec3" where
  "offset v dx dy dz = Vec3 (vx v + dx) (vy v + dy) (vz v + dz)"

definition floored :: "vec3 \<Rightarrow> vec3" where
  "floored v = Vec3 (of_int \<lfloor>vx v\<rfloor>) (of_int \<lfloor>vy v\<rfloor>) (of_int \<lfloor>vz v\<rfloor>)"

definition distanceTo :: "vec3 \<Rightarrow> vec3 \<Rightarrow> real" where
  "distanceTo v other =
     (let dx = vx other - vx v; dy = vy other - vy v; dz = vz other - vz v
      in sqrt (dx * dx + dy * dy + dz * dz))"

subsection \<open>Data\<close>

text \<open>
  One entry of the plan's \<open>instructions\<close> array, with the shape the plan format gives it:
  numeric offsets \<open>x\<close>, \<open>y\<close>, \<open>z\<close> (fields \<open>xoff\<close>, \<open>yoff\<close>, \<open>zoff\<close>) and the strings
  \<open>action\<close> and \<open>block\<close>.
\<close>

record instruction =
  xoff :: real
  yoff :: real
  zoff :: real
  action :: string
  block :: string

text \<open>
  What \<open>JSON.parse\<close> returned for the plan file, as far as the script looks at it: \<open>null\<close>,
  or a value whose \<open>instructions\<close> property is absent or falsy (\<open>None\<close>) or an array.
\<close>

datatype plan_value = PlanNull | PlanObject "instruction list option"

datatype js_error = SyntaxError | TypeError | IOError

record player =
  username :: string
  position :: vec3

text \<open>
  The surroundings of one run. \<open>readPlan p\<close> is \<open>JSON.parse(fs.readFileSync(p, 'utf8'))\<close>;
  \<open>numStr\<close> is the runtime's conversion of a number inside a template literal;
  \<open>spawns\<close> tells whether the bot's \<open>spawn\<close> event fires; \<open>nearestPlayer\<close> is the answer of
  \<open>bot.nearestEntity(e => e.type === 'player')\<close>, its position as read once the bot has
  teleported to it; \<open>entityPosition k\<close> is \<open>bot.entity.position\<close> as read while the k-th
  instruction (counted from 1) is processed.
\<close>

record env =
  dirname :: string
  pathJoin :: "string list \<Rightarrow> string"
  existsSync :: "string \<Rightarrow> bool"
  readPlan :: "string \<Rightarrow> js_error + plan_value"
  parseFloat :: "string \<Rightarrow> real"
  numStr :: "real \<Rightarrow> string"
  spawns :: bool
  nearestPlayer :: "player option"
  entityPosition :: "nat \<Rightarrow> vec3"

datatype event =
    ConsoleError string
  | ConsoleLog string
  | ProcessExit nat
  | Uncaught js_error
  | CreateBot
  | Chat string
  | WaitForTicks nat
  | StartFlying
  | LookAt vec3
  | Quit

subsection \<open>Strings\<close>

text \<open>\<open>Vec3.toString\<close>: the three coordinates in parentheses.\<close>

definition vecStr :: "env \<Rightarrow> vec3 \<Rightarrow> string" where
  "vecStr e v = ''('' @ numStr e (vx v) @ '', '' @ numStr e (vy v) @ '', '' @ numStr e (vz v) @ '')''"

definition msgStart :: string where
  "msgStart = [CHR 0xE4, CHR 0xBD, CHR 0x9C, CHR 0xE6, CHR 0xA5, CHR 0xAD, CHR 0xE3, CHR 0x82,
     CHR 0x92, CHR 0xE9, CHR 0x96, CHR 0x8B, CHR 0xE5, CHR 0xA7, CHR 0x8B, CHR 0xE3, CHR 0x81,
     CHR 0x97, CHR 0xE3, CHR 0x81, CHR 0xBE, CHR 0xE3, CHR 0x81, CHR 0x99] @ ''...''
     @ [CHR 0xF0, CHR 0x9F, CHR 0x94, CHR 0xA8]"

definition msgOriginGiven :: string where
  "msgOriginGiven = [CHR 0xE6, CHR 0x8C, CHR 0x87, CHR 0xE5, CHR 0xAE, CHR 0x9A, CHR 0xE5,
     CHR 0xBA, CHR 0xA7, CHR 0xE6, CHR 0xA8, CHR 0x99, CHR 0xE3, CHR 0x82, CHR 0x92, CHR 0xE4,
     CHR 0xBD, CHR 0x9C, CHR 0xE6, CHR 0xA5, CHR 0xAD, CHR 0xE5, CHR 0x8E, CHR 0x9F, CHR 0xE7,
     CHR 0x82, CHR 0xB9, CHR 0xE3, CHR 0x81, CHR 0xA8, CHR 0xE3, CHR 0x81, CHR 0x97, CHR 0xE3,
     CHR 0x81, CHR 0xBE, CHR 0xE3, CHR 0x81, CHR 0x99] @ '': ''"

definition msgNoPlayer :: string where
  "msgNoPlayer = [CHR 0xE5, CHR 0xBA, CHR 0xA7, CHR 0xE6, CHR 0xA8, CHR 0x99, CHR 0xE6, CHR 0x8C,
     CHR 0x87, CHR 0xE5, CHR 0xAE, CHR 0x9A, CHR 0xE3, CHR 0x81, CHR 0x8C, CHR 0xE3, CHR 0x81,
     CHR 0xAA, CHR 0xE3, CHR 0x81, CHR 0x8F, CHR 0xE3, CHR 0x80, CHR 0x81, CHR 0xE3, CHR 0x83,
     CHR 0x97, CHR 0xE3, CHR 0x83, CHR 0xAC, CHR 0xE3, CHR 0x82, CHR 0xA4, CHR 0xE3, CHR 0x83,
     CHR 0xA4, CHR 0xE3, CHR 0x83, CHR 0xBC, CHR 0xE3, CHR 0x82, CHR 0x82, CHR 0xE8, CHR 0xA6,
     CHR 0x8B, CHR 0xE3, CHR 0x81, CHR 0xA4, CHR 0xE3, CHR 0x81, CHR 0x8B, CHR 0xE3, CHR 0x82,
     CHR 0x8A, CHR 0xE3, CHR 0x81, CHR 0xBE, CHR 0xE3, CHR 0x81, CHR 0x9B, CHR 0xE3, CHR 0x82,
     CHR 0x93, CHR 0xE3, CHR 0x80, CHR 0x82]"

definition msgOriginPlayer :: string where
  "msgOriginPlayer = [CHR 0xE3, CHR 0x83, CHR 0x97, CHR 0xE3, CHR 0x83, CHR 0xAC, CHR 0xE3,
     CHR 0x82, CHR 0xA4, CHR 0xE3, CHR 0x83, CHR 0xA4, CHR 0xE3, CHR 0x83, CHR 0xBC, CHR 0xE4,
     CHR 0xBD, CHR 0x8D, CHR 0xE7, CHR 0xBD, CHR 0xAE, CHR 0xE3, CHR 0x82, CHR 0x92, CHR 0xE5,
     CHR 0x8E, CHR 0x9F, CHR 0xE7, CHR 0x82, CHR 0xB9, CHR 0xE3, CHR 0x81, CHR 0xA8, CHR 0xE3,
     CHR 0x81, CHR 0x97, CHR 0xE3, CHR 0x81, CHR 0xBE, CHR 0xE3, CHR 0x81, CHR 0x97, CHR 0xE3,
     CHR 0x81, CHR 0x9F] @ '': ''"

definition msgDone :: string where
  "msgDone = [CHR 0xE8, CHR 0xA3, CHR 0x85, CHR 0xE9, CHR 0xA3, CHR 0xBE, CHR 0xE5, CHR 0xAE,
     CHR 0x8C, CHR 0xE4, CHR 0xBA, CHR 0x86, CHR 0xE3, CHR 0x81, CHR 0x97, CHR 0xE3, CHR 0x81,
     CHR 0xBE, CHR 0xE3, CHR 0x81, CHR 0x97, CHR 0xE3, CHR 0x81, CHR 0x9F, CHR 0xEF, CHR 0xBC,
     CHR 0x81, CHR 0xE2, CHR 0x9C, CHR 0xA8]"

definition msgJoined :: string where
  "msgJoined = [CHR 0xF0, CHR 0x9F, CHR 0xA4, CHR 0x96] @ '' AI Carpenter joined! Ready to work.''"

text \<open>The two command strings the loop builds (lines 101 and 109).\<close>

definition tpCmd :: "env \<Rightarrow> vec3 \<Rightarrow> string" where
  "tpCmd e p = ''/tp @s '' @ numStr e (vx p) @ '' '' @ numStr e (vy p) @ '' '' @ numStr e (vz p)"

definition setblockCmd :: "env \<Rightarrow> vec3 \<Rightarrow> string \<Rightarrow> string" where
  "setblockCmd e p b =
     ''/setblock '' @ numStr e (vx p) @ '' '' @ numStr e (vy p) @ '' '' @ numStr e (vz p)
       @ '' '' @ b @ '' replace''"

subsection \<open>Arguments and the plan loader (lines 7 to 33)\<close>

text \<open>\<open>process.argv[i]\<close>: \<open>None\<close> is \<open>undefined\<close>.\<close>

fun argvAt :: "string list \<Rightarrow> nat \<Rightarrow> string option" where
  "argvAt [] i = None"
| "argvAt (a # as) 0 = Some a"
| "argvAt (a # as) (Suc i) = argvAt as i"

text \<open>Truthiness of an argument: present and not the empty string.\<close>

definition truthy :: "string option \<Rightarrow> bool" where
  "truthy a = (case a of None \<Rightarrow> False | Some s \<Rightarrow> s \<noteq> [])"

text \<open>\<open>a || d\<close> on an argument.\<close>

definition orElse :: "string option \<Rightarrow> string \<Rightarrow> string" where
  "orElse a d = (case a of None \<Rightarrow> d | Some s \<Rightarrow> if s = [] then d else s)"

text \<open>\<open>plan.instructions || []\<close>: reading a property of \<open>null\<close> throws.\<close>

definition instructionsOf :: "plan_value \<Rightarrow> js_error + instruction list" where
  "instructionsOf plan =
     (case plan of
        PlanNull \<Rightarrow> Inl TypeError
      | PlanObject None \<Rightarrow> Inr []
      | PlanObject (Some xs) \<Rightarrow> Inr xs)"

subsection \<open>executePlan (lines 49 to 127)\<close>

text \<open>
  Origin resolution, lines 52 to 84: the events issued and the origin, \<open>None\<close> when the
  function returns at line 73. Inside the first branch the three arguments are present,
  and \<open>orElse a []\<close> is the argument's string.
\<close>

definition resolveOrigin ::
  "env \<Rightarrow> string option \<Rightarrow> string option \<Rightarrow> string option \<Rightarrow> event list \<times> vec3 option" where
  "resolveOrigin e argX argY argZ =
     (if truthy argX \<and> truthy argY \<and> truthy argZ then
        (let origin = Vec3 (parseFloat e (orElse argX [])) (parseFloat e (orElse argY []))
                           (parseFloat e (orElse argZ []))
         in ([ConsoleLog (''Using provided origin: '' @ vecStr e origin),
              Chat (msgOriginGiven @ vecStr e origin),
              Chat (''/tp @s '' @ numStr e (vx origin) @ '' '' @ numStr e (vy origin + 5)
                      @ '' '' @ numStr e (vz origin)),
              WaitForTicks 20, StartFlying, WaitForTicks 40], Some origin))
      else
        (case nearestPlayer e of
           None \<Rightarrow>
             ([ConsoleLog ''No player found and no coordinates provided.'',
               Chat msgNoPlayer], None)
         | Some target \<Rightarrow>
             (let origin = floored (position target)
              in ([ConsoleLog (''Syncing origin with player: '' @ username target),
                   Chat (''/tp @s '' @ username target),
                   WaitForTicks 40, StartFlying,
                   ConsoleLog (''Origin set to: '' @ vecStr e origin),
                   Chat (msgOriginPlayer @ vecStr e origin)], Some origin))))"

text \<open>An instruction the loop acts on (line 96).\<close>

definition isPlacement :: "instruction \<Rightarrow> bool" where
  "isPlacement instr = (action instr = ''setblock'' \<or> action instr = ''place'')"

text \<open>
  The loop of lines 89 to 120. \<open>count\<close> is the counter before the instruction at the head
  of the list is taken; \<open>total_n\<close> stands for \<open>total\<close>, which is \<open>instructions.length\<close>.
\<close>

fun placeLoop :: "env \<Rightarrow> vec3 \<Rightarrow> nat \<Rightarrow> nat \<Rightarrow> instruction list \<Rightarrow> event list" where
  "placeLoop e origin count total_n [] = []"
| "placeLoop e origin count total_n (instr # rest) =
     (let count' = count + 1;
          targetPos = offset origin (xoff instr) (yoff instr) (zoff instr)
      in (if action instr = ''setblock'' \<or> action instr = ''place'' then
            (if distanceTo (entityPosition e count') targetPos > 4 then
               (let movePos = offset targetPos 0 2 0
                in [Chat (tpCmd e movePos), WaitForTicks 20])
             else [])
            @ [LookAt targetPos]
            @ (let cmd = setblockCmd e targetPos (block instr)
               in [Chat cmd]
                  @ (if count' mod 5 = 0 \<or> count' = 1 \<or> count' = total_n then
                       [ConsoleLog (''['' @ numStr e (real count') @ ''/'' @ numStr e (real total_n)
                                     @ ''] '' @ cmd)]
                     else []))
          else [])
         @ [WaitForTicks 5]
         @ placeLoop e origin count' total_n rest)"

definition executePlan ::
  "env \<Rightarrow> string option \<Rightarrow> string option \<Rightarrow> string option \<Rightarrow> instruction list \<Rightarrow> event list" where
  "executePlan e argX argY argZ instructions =
     [Chat msgStart]
     @ (case resolveOrigin e argX argY argZ of
          (evs, None) \<Rightarrow> evs
        | (evs, Some origin) \<Rightarrow>
            evs @ placeLoop e origin 0 (length instructions) instructions
                @ [WaitForTicks 4, Chat msgDone, Quit])"

subsection \<open>The whole script\<close>

text \<open>The plan file's path, lines 20 to 22.\<close>

definition projectDir :: "env \<Rightarrow> string \<Rightarrow> string" where
  "projectDir e projectName = pathJoin e [dirname e, ''..'', ''projects'', projectName]"

definition targetFileName :: "string option \<Rightarrow> string" where
  "targetFileName argFile = orElse argFile ''decoration.json''"

definition decorationFile :: "env \<Rightarrow> string \<Rightarrow> string option \<Rightarrow> string" where
  "decorationFile e projectName argFile =
     pathJoin e [projectDir e projectName, targetFileName argFile]"

text \<open>The spawn handler, lines 41 to 47.\<close>

definition onSpawn ::
  "env \<Rightarrow> string option \<Rightarrow> string option \<Rightarrow> string option \<Rightarrow> instruction list \<Rightarrow> event list" where
  "onSpawn e argX argY argZ instructions =
     [ConsoleLog msgJoined, Chat ''/gamemode creative'', WaitForTicks 20]
     @ executePlan e argX argY argZ instructions"

text \<open>
  The script from its first line: the events of a run started with \<open>process.argv = argv\<close>.
  An exception nobody catches ends the run (\<open>Uncaught\<close>). The handler of \<open>spawn\<close> runs
  if that event fires.
\<close>

definition script :: "env \<Rightarrow> string list \<Rightarrow> event list" where
  "script e argv =
     (let argX = argvAt argv 3;
          argY = argvAt argv 4;
          argZ = argvAt argv 5;
          argFile = argvAt argv 6
      in case argvAt argv 2 of
           None \<Rightarrow> [ConsoleError ''Please provide a project name argument.'', ProcessExit 1]
         | Some projectName \<Rightarrow>
             if projectName = [] then
               [ConsoleError ''Please provide a project name argument.'', ProcessExit 1]
             else if \<not> existsSync e (decorationFile e projectName argFile) then
               [ConsoleError (''File not found: '' @ decorationFile e projectName argFile),
                ProcessExit 1]
             else
               ConsoleLog (''Loading plan from: '' @ targetFileName argFile
                             @ '' for project: '' @ projectName)
               # (case readPlan e (decorationFile e projectName argFile) of
                    Inl err \<Rightarrow> [Uncaught err]
                  | Inr plan \<Rightarrow>
                      (case instructionsOf plan of
                         Inl err \<Rightarrow> [Uncaught err]
                       | Inr instructions \<Rightarrow>
                           [ConsoleLog (''Found '' @ numStr e (real (length instructions))
                                          @ '' instructions.''),
                            CreateBot]
                           @ (if spawns e then onSpawn e argX argY argZ instructions
                              else []))))"

subsection \<open>Observations on a run\<close>

fun startsWith :: "string \<Rightarrow> string \<Rightarrow> bool" where
  "startsWith s [] = True"
| "startsWith [] (p # ps) = False"
| "startsWith (c # cs) (p # ps) = (c = p \<and> startsWith cs ps)"

text \<open>The placement commands of a run: the chat messages that are \<open>/setblock\<close> commands.\<close>

fun placements :: "event list \<Rightarrow> string list" where
  "placements [] = []"
| "placements (Chat m # evs) =
     (if startsWith m ''/setblock '' then m # placements evs else placements evs)"
| "placements (ev # evs) = placements evs"

text \<open>The reposition commands of a run: the chat messages that are \<open>/tp\<close> commands.\<close>

fun teleports :: "event list \<Rightarrow> string list" where
  "teleports [] = []"
| "teleports (Chat m # evs) =
     (if startsWith m ''/tp '' then m # teleports evs else teleports evs)"
| "teleports (ev # evs) = teleports evs"

text \<open>The positions the bot is told to look at, and the console lines, in order.\<close>

fun lookAts :: "event list \<Rightarrow> vec3 list" where
  "lookAts [] = []"
| "lookAts (LookAt p # evs) = p # lookAts evs"
| "lookAts (ev # evs) = lookAts evs"

fun consoleLogs :: "event list \<Rightarrow> string list" where
  "consoleLogs [] = []"
| "consoleLogs (ConsoleLog s # evs) = s # consoleLogs evs"
| "consoleLogs (ev # evs) = consoleLogs evs"

text \<open>
  A printer of decimal numerals (the integer part, then up to six decimals when there are
  any), to run the model on concrete inputs.
\<close>

fun showNat :: "nat \<Rightarrow> string" where
  "showNat n =
     (if n < 10 then [''0123456789'' ! n]
      else showNat (n div 10) @ [''0123456789'' ! (n mod 10)])"

fun showFrac :: "nat \<Rightarrow> real \<Rightarrow> string" where
  "showFrac 0 f = []"
| "showFrac (Suc k) f =
     (if f = 0 then []
      else (''0123456789'' ! nat \<lfloor>10 * f\<rfloor>) # showFrac k (10 * f - of_int \<lfloor>10 * f\<rfloor>))"

definition showAbs :: "real \<Rightarrow> string" where
  "showAbs a =
     showNat (nat \<lfloor>a\<rfloor>)
     @ (if a = of_int \<lfloor>a\<rfloor> then [] else ''.'' @ showFrac 6 (a - of_int \<lfloor>a\<rfloor>))"

definition showNum :: "real \<Rightarrow> string" where
  "showNum r = (if r < 0 then ''-'' @ showAbs (- r) else showAbs r)"

text \<open>A reader of unsigned decimal numerals and a plain path join, for the same purpose.\<close>

definition digitsVal :: "string \<Rightarrow> nat" where
  "digitsVal s = foldl (\<lambda>a c. 10 * a + (of_char c - 48)) 0 s"

definition readNum :: "string \<Rightarrow> real" where
  "readNum s =
     (let ip = takeWhile (\<lambda>c. c \<noteq> CHR ''.'') s;
          fp = drop 1 (dropWhile (\<lambda>c. c \<noteq> CHR ''.'') s)
      in real (digitsVal ip) + real (digitsVal fp) / 10 ^ length fp)"

definition joinPath :: "string list \<Rightarrow> string" where
  "joinPath ps = foldr (\<lambda>p q. if q = [] then p else p @ ''/'' @ q) ps []"

subsection \<open>A concrete run\<close>

text \<open>
  A plan of three entries (a block at the origin, an annotation, a block ten units away)
  and surroundings in which the plan file of project \<open>demo\<close> exists, a player stands at
  (10.5, 64, -2.5) and the bot is always seen at (10, 66, 10).
\<close>

definition demoPlan :: "instruction list" where
  "demoPlan =
     [\<lparr>xoff = 0, yoff = 0, zoff = 0, action = ''setblock'', block = ''stone''\<rparr>,
      \<lparr>xoff = 1, yoff = 0, zoff = 0, action = ''annotation'', block = ''note''\<rparr>,
      \<lparr>xoff = 10, yoff = 1, zoff = 0, action = ''place'', block = ''oak_planks''\<rparr>]"

definition demoEnv :: env where
  "demoEnv =
     \<lparr>dirname = ''/srv/AI_Carpenter_Bot'',
      pathJoin = joinPath,
      existsSync = (\<lambda>p. p = ''/srv/AI_Carpenter_Bot/../projects/demo/decoration.json''),
      readPlan = (\<lambda>p. Inr (PlanObject (Some demoPlan))),
      parseFloat = readNum,
      numStr = showNum,
      spawns = True,
      nearestPlayer = Some \<lparr>username = ''steve'', position = Vec3 (21 / 2) 64 (- 5 / 2)\<rparr>,
      entityPosition = (\<lambda>k. Vec3 10 66 10)\<rparr>"

text \<open>The same surroundings with no player in sight and the bot seen elsewhere.\<close>

definition lonelyEnv :: env where
  "lonelyEnv = demoEnv\<lparr>nearestPlayer := None, entityPosition := (\<lambda>k. Vec3 0 80 0)\<rparr>"

text \<open>
  Two plans of twelve entries: twelve stone blocks in a row, and the same row with an
  annotation in fifth place.
\<close>

definition stoneAt :: "real \<Rightarrow> instruction" where
  "stoneAt d = \<lparr>xoff = d, yoff = 0, zoff = 0, action = ''setblock'', block = ''stone''\<rparr>"

definition noteAt :: "real \<Rightarrow> instruction" where
  "noteAt d = \<lparr>xoff = d, yoff = 0, zoff = 0, action = ''annotation'', block = ''note''\<rparr>"

definition rowPlan :: "instruction list" where
  "rowPlan = [stoneAt 0, stoneAt 1, stoneAt 2, stoneAt 3, stoneAt 4, stoneAt 5, stoneAt 6,
              stoneAt 7, stoneAt 8, stoneAt 9, stoneAt 10, stoneAt 11]"

definition gappedPlan :: "instruction list" where
  "gappedPlan = [stoneAt 0, stoneAt 1, stoneAt 2, stoneAt 3, noteAt 4, stoneAt 5, stoneAt 6,
                 stoneAt 7, stoneAt 8, stoneAt 9, stoneAt 10, stoneAt 11]"

section \<open>Properties\<close>

subsection \<open>Observations distribute over concatenation\<close>

lemma placements_append: "placements (xs @ ys) = placements xs @ placements ys"
  by (induction xs rule: placements.induct) simp_all

lemma teleports_append: "teleports (xs @ ys) = teleports xs @ teleports ys"
  by (induction xs rule: teleports.induct) simp_all

lemma lookAts_append: "lookAts (xs @ ys) = lookAts xs @ lookAts ys"
  by (induction xs rule: lookAts.induct) simp_all

lemma consoleLogs_append: "consoleLogs (xs @ ys) = consoleLogs xs @ consoleLogs ys"
  by (induction xs rule: consoleLogs.induct) simp_all

subsection \<open>The command strings\<close>

lemma setblockCmd_is_setblock: "startsWith (setblockCmd e p b) ''/setblock ''"
  unfolding setblockCmd_def by simp

lemma setblockCmd_not_tp: "\<not> startsWith (setblockCmd e p b) ''/tp ''"
  unfolding setblockCmd_def by simp

lemma tpCmd_is_tp: "startsWith (tpCmd e p) ''/tp ''"
  unfolding tpCmd_def by simp

lemma tpCmd_not_setblock: "\<not> startsWith (tpCmd e p) ''/setblock ''"
  unfolding tpCmd_def by simp

lemma setblockCmd_offset:
  "setblockCmd e (offset origin dx dy dz) b =
     ''/setblock '' @ numStr e (vx origin + dx) @ '' '' @ numStr e (vy origin + dy) @ '' ''
       @ numStr e (vz origin + dz) @ '' '' @ b @ '' replace''"
  by (simp add: setblockCmd_def offset_def)

lemma tpCmd_above:
  "tpCmd e (offset (offset origin dx dy dz) 0 2 0) =
     ''/tp @s '' @ numStr e (vx origin + dx) @ '' '' @ numStr e (vy origin + dy + 2) @ '' ''
       @ numStr e (vz origin + dz)"
  by (simp add: tpCmd_def offset_def)

text \<open>The threshold test without the square root.\<close>

lemma distanceTo_gt4:
  "distanceTo v w > 4 \<longleftrightarrow>
     (vx w - vx v) * (vx w - vx v) + (vy w - vy v) * (vy w - vy v)
       + (vz w - vz v) * (vz w - vz v) > 16"
proof -
  have "sqrt 16 = 4" by simp
  then have "\<And>d. (4 < sqrt d) = (16 < d)" by (metis real_sqrt_less_iff)
  then show ?thesis by (simp add: distanceTo_def Let_def)
qed

subsection \<open>The loop\<close>

lemma placements_placeLoop:
  "placements (placeLoop e origin c n instrs) =
     map (\<lambda>i. setblockCmd e (offset origin (xoff i) (yoff i) (zoff i)) (block i))
       (filter isPlacement instrs)"
  by (induction instrs arbitrary: c)
     (simp_all add: Let_def placements_append isPlacement_def setblockCmd_is_setblock
        tpCmd_not_setblock)

lemma lookAts_placeLoop:
  "lookAts (placeLoop e origin c n instrs) =
     map (\<lambda>i. offset origin (xoff i) (yoff i) (zoff i)) (filter isPlacement instrs)"
  by (induction instrs arbitrary: c) (simp_all add: Let_def lookAts_append isPlacement_def)

lemma placeLoop_append:
  "placeLoop e origin c n (xs @ ys) =
     placeLoop e origin c n xs @ placeLoop e origin (c + length xs) n ys"
  by (induction xs arbitrary: c) (simp_all add: Let_def)

subsection \<open>Origin resolution and the whole of executePlan\<close>

lemma placements_resolveOrigin: "placements (fst (resolveOrigin e ax ay az)) = []"
  by (simp add: resolveOrigin_def Let_def msgOriginGiven_def msgNoPlayer_def msgOriginPlayer_def
      split: option.splits)

lemma lookAts_resolveOrigin: "lookAts (fst (resolveOrigin e ax ay az)) = []"
  by (simp add: resolveOrigin_def Let_def split: option.splits)

lemma placements_executePlan:
  "placements (executePlan e ax ay az instrs) =
     (case snd (resolveOrigin e ax ay az) of
        None \<Rightarrow> []
      | Some origin \<Rightarrow>
          map (\<lambda>i. setblockCmd e (offset origin (xoff i) (yoff i) (zoff i)) (block i))
            (filter isPlacement instrs))"
proof -
  obtain evs r where r: "resolveOrigin e ax ay az = (evs, r)"
    by (cases "resolveOrigin e ax ay az")
  have p: "placements evs = []"
    using placements_resolveOrigin [of e ax ay az] r by simp
  have s: "\<not> startsWith msgStart ''/setblock ''" "\<not> startsWith msgDone ''/setblock ''"
    by (simp_all add: msgStart_def msgDone_def)
  show ?thesis
    by (cases r) (simp_all add: executePlan_def r placements_append p s placements_placeLoop)
qed

lemma lookAts_executePlan:
  "lookAts (executePlan e ax ay az instrs) =
     (case snd (resolveOrigin e ax ay az) of
        None \<Rightarrow> []
      | Some origin \<Rightarrow>
          map (\<lambda>i. offset origin (xoff i) (yoff i) (zoff i)) (filter isPlacement instrs))"
proof -
  obtain evs r where r: "resolveOrigin e ax ay az = (evs, r)"
    by (cases "resolveOrigin e ax ay az")
  have p: "lookAts evs = []"
    using lookAts_resolveOrigin [of e ax ay az] r by simp
  show ?thesis
    by (cases r) (simp_all add: executePlan_def r lookAts_append p lookAts_placeLoop)
qed

lemma resolveOrigin_derived:
  "\<not> (truthy ax \<and> truthy ay \<and> truthy az) \<Longrightarrow>
   snd (resolveOrigin e ax ay az) = map_option (\<lambda>t. floored (position t)) (nearestPlayer e)"
  by (auto simp add: resolveOrigin_def Let_def split: option.splits)

subsection \<open>Repositioning, progress lines and partial coordinates\<close>

lemma isPlacement_eq: "isPlacement = (\<lambda>i. action i = ''setblock'' \<or> action i = ''place'')"
  by (rule ext) (simp add: isPlacement_def)

lemma distanceTo_le4:
  "distanceTo v w \<le> 4 \<longleftrightarrow>
     (vx w - vx v) * (vx w - vx v) + (vy w - vy v) * (vy w - vy v)
       + (vz w - vz v) * (vz w - vz v) \<le> 16"
  using distanceTo_gt4 [of v w] by linarith

text \<open>The reposition commands of the loop; \<open>enumerate\<close> pairs each instruction with its count.\<close>

lemma teleports_placeLoop:
  "teleports (placeLoop e origin c n instrs) =
     map (\<lambda>(k, i). tpCmd e (offset (offset origin (xoff i) (yoff i) (zoff i)) 0 2 0))
       (filter (\<lambda>(k, i). isPlacement i \<and>
           distanceTo (entityPosition e k) (offset origin (xoff i) (yoff i) (zoff i)) > 4)
         (enumerate (Suc c) instrs))"
  by (induction instrs arbitrary: c)
     (simp_all add: Let_def teleports_append isPlacement_def setblockCmd_not_tp tpCmd_is_tp)

text \<open>The console lines of the loop.\<close>

lemma consoleLogs_placeLoop:
  "consoleLogs (placeLoop e origin c n instrs) =
     map (\<lambda>(k, i). ''['' @ numStr e (real k) @ ''/'' @ numStr e (real n) @ ''] ''
                     @ setblockCmd e (offset origin (xoff i) (yoff i) (zoff i)) (block i))
       (filter (\<lambda>(k, i). isPlacement i \<and> (k mod 5 = 0 \<or> k = 1 \<or> k = n))
          (enumerate (Suc c) instrs))"
  by (induction instrs arbitrary: c)
     (simp_all add: Let_def consoleLogs_append isPlacement_def)

text \<open>The run of the loop, cut around the instruction at index \<open>k\<close>.\<close>

lemma placeLoop_at:
  assumes "k < length instrs"
  shows "placeLoop e origin 0 n instrs =
     placeLoop e origin 0 n (take k instrs) @ placeLoop e origin k n [instrs ! k]
       @ placeLoop e origin (Suc k) n (drop (Suc k) instrs)"
proof -
  have "instrs = take k instrs @ [instrs ! k] @ drop (Suc k) instrs"
    using assms by (simp add: Cons_nth_drop_Suc)
  then have "placeLoop e origin 0 n instrs =
      placeLoop e origin 0 n (take k instrs @ [instrs ! k] @ drop (Suc k) instrs)"
    by simp
  also have "\<dots> = placeLoop e origin 0 n (take k instrs) @ placeLoop e origin k n [instrs ! k]
       @ placeLoop e origin (Suc k) n (drop (Suc k) instrs)"
    using assms by (simp only: placeLoop_append) simp
  finally show ?thesis .
qed

lemma length_twelve:
  assumes "length (xs :: 'a list) = 12"
  shows "xs = [xs ! 0, xs ! 1, xs ! 2, xs ! 3, xs ! 4, xs ! 5, xs ! 6, xs ! 7, xs ! 8, xs ! 9,
               xs ! 10, xs ! 11]"
  using assms by (intro nth_equalityI) (auto simp add: nth_Cons' less_Suc_eq eval_nat_numeral)

lemma executePlan_resolved:
  "resolveOrigin e ax ay az = (evs, Some origin) \<Longrightarrow>
   executePlan e ax ay az instrs =
     Chat msgStart # evs @ placeLoop e origin 0 (length instrs) instrs
       @ [WaitForTicks 4, Chat msgDone, Quit]"
  by (simp add: executePlan_def)

lemma truthy_None: "\<not> truthy None"
  by (simp add: truthy_def)

lemma resolveOrigin_partial:
  "\<not> (truthy ax \<and> truthy ay \<and> truthy az) \<Longrightarrow>
   resolveOrigin e ax ay az = resolveOrigin e None None None"
  by (auto simp add: resolveOrigin_def truthy_None)

lemma executePlan_partial:
  "\<not> (truthy ax \<and> truthy ay \<and> truthy az) \<Longrightarrow>
   executePlan e ax ay az instrs = executePlan e None None None instrs"
  by (simp add: executePlan_def resolveOrigin_partial)

lemma argvAt_beyond: "length xs \<le> i \<Longrightarrow> argvAt xs i = None"
  by (induction xs i rule: argvAt.induct) simp_all

lemma argvAt_take: "i < n \<Longrightarrow> argvAt (take n xs) i = argvAt xs i"
proof (induction xs i arbitrary: n rule: argvAt.induct)
  case (1 i)
  then show ?case by simp
next
  case (2 a as)
  then show ?case by (cases n) simp_all
next
  case (3 a as i)
  then show ?case by (cases n) simp_all
qed

subsection \<open>Evaluation on the concrete run\<close>

lemma argvAt_numeral: "argvAt (a # as) (numeral k) = argvAt as (pred_numeral k)"
  by (simp add: numeral_eq_Suc)

lemma showFrac_numeral:
  "showFrac (numeral k) f =
     (if f = 0 then []
      else (''0123456789'' ! nat \<lfloor>10 * f\<rfloor>)
             # showFrac (pred_numeral k) (10 * f - of_int \<lfloor>10 * f\<rfloor>))"
  by (simp add: numeral_eq_Suc)

lemmas show_simps = showNum_def showAbs_def showFrac_numeral

lemma readNum_values:
  "readNum ''10'' = 10" "readNum ''64'' = 64" "readNum ''10.5'' = 21 / 2"
  "readNum ''10.25'' = 41 / 4"
  by (simp_all add: readNum_def digitsVal_def)

lemma demo_numStr: "numStr demoEnv = showNum"
  by (simp add: demoEnv_def)

lemma demo_parseFloat: "parseFloat demoEnv = readNum"
  by (simp add: demoEnv_def)

lemma demo_entityPosition: "entityPosition demoEnv k = Vec3 10 66 10"
  by (simp add: demoEnv_def)

lemma demo_player:
  "nearestPlayer demoEnv = Some \<lparr>username = ''steve'', position = Vec3 (21 / 2) 64 (- 5 / 2)\<rparr>"
  by (simp add: demoEnv_def)

lemma demo_origin_explicit:
  "snd (resolveOrigin demoEnv (Some ''10'') (Some ''64'') (Some ''10'')) = Some (Vec3 10 64 10)"
  by (simp add: resolveOrigin_def Let_def truthy_def orElse_def demoEnv_def readNum_values)

lemma lonely_origin_explicit:
  "snd (resolveOrigin lonelyEnv (Some ''10'') (Some ''64'') (Some ''10'')) = Some (Vec3 10 64 10)"
  by (simp add: resolveOrigin_def Let_def truthy_def orElse_def lonelyEnv_def demoEnv_def
      readNum_values)

lemma demoPlan_length: "length demoPlan = 3"
  by (simp add: demoPlan_def)

lemma demoPlan_enumerate:
  "enumerate (Suc 0) demoPlan =
     [(Suc 0, \<lparr>xoff = 0, yoff = 0, zoff = 0, action = ''setblock'', block = ''stone''\<rparr>),
      (2, \<lparr>xoff = 1, yoff = 0, zoff = 0, action = ''annotation'', block = ''note''\<rparr>),
      (3, \<lparr>xoff = 10, yoff = 1, zoff = 0, action = ''place'', block = ''oak_planks''\<rparr>)]"
  by (simp add: demoPlan_def)

lemma demoPlan_nth:
  "demoPlan ! 0 = \<lparr>xoff = 0, yoff = 0, zoff = 0, action = ''setblock'', block = ''stone''\<rparr>"
  "demoPlan ! 1 = \<lparr>xoff = 1, yoff = 0, zoff = 0, action = ''annotation'', block = ''note''\<rparr>"
  "demoPlan ! 2 = \<lparr>xoff = 10, yoff = 1, zoff = 0, action = ''place'', block = ''oak_planks''\<rparr>"
  by (simp_all add: demoPlan_def)

lemma demoPlan_placements:
  "filter (\<lambda>i. action i = ''setblock'' \<or> action i = ''place'') demoPlan =
     [\<lparr>xoff = 0, yoff = 0, zoff = 0, action = ''setblock'', block = ''stone''\<rparr>,
      \<lparr>xoff = 10, yoff = 1, zoff = 0, action = ''place'', block = ''oak_planks''\<rparr>]"
  by (simp add: demoPlan_def)

lemma rowPlan_facts:
  "length rowPlan = 12"
  "rowPlan ! 0 = stoneAt 0" "rowPlan ! 4 = stoneAt 4" "rowPlan ! 9 = stoneAt 9"
  "rowPlan ! 11 = stoneAt 11"
  by (simp_all add: rowPlan_def)

subsection \<open>The claims\<close>

text \<open>
  C1. For every plan and every fixed origin, the placement commands of the loop are, in the
  order of the list, one \<open>/setblock x y z block replace\<close> per instruction whose action is
  \<open>setblock\<close> or \<open>place\<close>, at the origin plus the instruction's offset and with its block
  string unchanged; any other instruction adds none. The same holds of the whole of
  \<open>executePlan\<close> whenever origin resolution yields that origin.
\<close>

theorem placement_commands_follow_plan:
  "placements (placeLoop e origin 0 (length instructions) instructions) =
     map (\<lambda>i. ''/setblock '' @ numStr e (vx origin + xoff i) @ '' ''
                @ numStr e (vy origin + yoff i) @ '' '' @ numStr e (vz origin + zoff i)
                @ '' '' @ block i @ '' replace'')
       (filter (\<lambda>i. action i = ''setblock'' \<or> action i = ''place'') instructions)
   \<and> (snd (resolveOrigin e argX argY argZ) = Some origin \<longrightarrow>
        placements (executePlan e argX argY argZ instructions) =
          map (\<lambda>i. ''/setblock '' @ numStr e (vx origin + xoff i) @ '' ''
                     @ numStr e (vy origin + yoff i) @ '' '' @ numStr e (vz origin + zoff i)
                     @ '' '' @ block i @ '' replace'')
            (filter (\<lambda>i. action i = ''setblock'' \<or> action i = ''place'') instructions))"
  by (simp add: placements_placeLoop placements_executePlan setblockCmd_offset isPlacement_eq)

theorem placement_commands_follow_plan_witness:
  "snd (resolveOrigin demoEnv (Some ''10'') (Some ''64'') (Some ''10'')) = Some (Vec3 10 64 10)
   \<and> placements (executePlan demoEnv (Some ''10'') (Some ''64'') (Some ''10'') demoPlan) =
       [''/setblock 10 64 10 stone replace'', ''/setblock 20 65 10 oak_planks replace'']"
proof -
  have n: "numStr demoEnv = showNum" by (simp add: demoEnv_def)
  show ?thesis
    using placement_commands_follow_plan
      [of demoEnv "Vec3 10 64 10" demoPlan "Some ''10''" "Some ''64''" "Some ''10''"]
    by (simp add: demo_origin_explicit n) (simp add: demoPlan_def show_simps)
qed

text \<open>
  C2. In the loop, the reposition commands are exactly one \<open>/tp\<close> per placement instruction
  whose target is more than 4 units from the bot's position as read at that instruction,
  each aimed 2 units above the target. For the placement instruction at index \<open>k\<close>: at
  distance at most 4 its look-at and \<open>/setblock\<close> follow the events of the earlier
  instructions directly, with no reposition between; at a distance above 4 exactly the
  reposition command and a wait of 20 ticks stand between them.
\<close>

theorem reposition_iff_far:
  "teleports (placeLoop e origin 0 (length instructions) instructions) =
     map (\<lambda>(k, i). ''/tp @s '' @ numStr e (vx origin + xoff i) @ '' ''
                     @ numStr e (vy origin + yoff i + 2) @ '' '' @ numStr e (vz origin + zoff i))
       (filter (\<lambda>(k, i). (action i = ''setblock'' \<or> action i = ''place'') \<and>
            distanceTo (entityPosition e k) (offset origin (xoff i) (yoff i) (zoff i)) > 4)
          (enumerate 1 instructions))
   \<and> (\<forall>k < length instructions.
         action (instructions ! k) = ''setblock'' \<or> action (instructions ! k) = ''place'' \<longrightarrow>
         (let i = instructions ! k;
              targetPos = offset origin (xoff i) (yoff i) (zoff i);
              before = placeLoop e origin 0 (length instructions) (take k instructions);
              place = [LookAt targetPos,
                       Chat (''/setblock '' @ numStr e (vx targetPos) @ '' ''
                              @ numStr e (vy targetPos) @ '' '' @ numStr e (vz targetPos)
                              @ '' '' @ block i @ '' replace'')]
          in (distanceTo (entityPosition e (k + 1)) targetPos \<le> 4 \<longrightarrow>
                (\<exists>rest. placeLoop e origin 0 (length instructions) instructions =
                   before @ place @ rest))
           \<and> (distanceTo (entityPosition e (k + 1)) targetPos > 4 \<longrightarrow>
                (\<exists>rest. placeLoop e origin 0 (length instructions) instructions =
                   before
                   @ [Chat (''/tp @s '' @ numStr e (vx targetPos) @ '' ''
                             @ numStr e (vy targetPos + 2) @ '' '' @ numStr e (vz targetPos)),
                      WaitForTicks 20]
                   @ place @ rest))))"
proof (intro conjI allI impI)
  show "teleports (placeLoop e origin 0 (length instructions) instructions) =
     map (\<lambda>(k, i). ''/tp @s '' @ numStr e (vx origin + xoff i) @ '' ''
                     @ numStr e (vy origin + yoff i + 2) @ '' '' @ numStr e (vz origin + zoff i))
       (filter (\<lambda>(k, i). (action i = ''setblock'' \<or> action i = ''place'') \<and>
            distanceTo (entityPosition e k) (offset origin (xoff i) (yoff i) (zoff i)) > 4)
          (enumerate 1 instructions))"
    by (simp add: teleports_placeLoop tpCmd_above isPlacement_eq)
next
  fix k
  assume k: "k < length instructions"
    and a: "action (instructions ! k) = ''setblock'' \<or> action (instructions ! k) = ''place''"
  show "let i = instructions ! k;
              targetPos = offset origin (xoff i) (yoff i) (zoff i);
              before = placeLoop e origin 0 (length instructions) (take k instructions);
              place = [LookAt targetPos,
                       Chat (''/setblock '' @ numStr e (vx targetPos) @ '' ''
                              @ numStr e (vy targetPos) @ '' '' @ numStr e (vz targetPos)
                              @ '' '' @ block i @ '' replace'')]
          in (distanceTo (entityPosition e (k + 1)) targetPos \<le> 4 \<longrightarrow>
                (\<exists>rest. placeLoop e origin 0 (length instructions) instructions =
                   before @ place @ rest))
           \<and> (distanceTo (entityPosition e (k + 1)) targetPos > 4 \<longrightarrow>
                (\<exists>rest. placeLoop e origin 0 (length instructions) instructions =
                   before
                   @ [Chat (''/tp @s '' @ numStr e (vx targetPos) @ '' ''
                             @ numStr e (vy targetPos + 2) @ '' '' @ numStr e (vz targetPos)),
                      WaitForTicks 20]
                   @ place @ rest))"
    using a by (auto simp add: Let_def placeLoop_at [OF k] setblockCmd_def tpCmd_def offset_def)
qed

theorem reposition_iff_far_witness:
  "teleports (placeLoop demoEnv (Vec3 10 64 10) 0 (length demoPlan) demoPlan) =
     [''/tp @s 20 67 10'']
   \<and> (\<exists>rest. placeLoop demoEnv (Vec3 10 64 10) 0 (length demoPlan) demoPlan =
         placeLoop demoEnv (Vec3 10 64 10) 0 (length demoPlan) (take 0 demoPlan)
         @ [LookAt (Vec3 10 64 10), Chat ''/setblock 10 64 10 stone replace''] @ rest)
   \<and> (\<exists>rest. placeLoop demoEnv (Vec3 10 64 10) 0 (length demoPlan) demoPlan =
         placeLoop demoEnv (Vec3 10 64 10) 0 (length demoPlan) (take 2 demoPlan)
         @ [Chat ''/tp @s 20 67 10'', WaitForTicks 20]
         @ [LookAt (Vec3 20 65 10), Chat ''/setblock 20 65 10 oak_planks replace''] @ rest)"
proof -
  note T = reposition_iff_far [of demoEnv "Vec3 10 64 10" demoPlan]
  have a: "teleports (placeLoop demoEnv (Vec3 10 64 10) 0 (length demoPlan) demoPlan) =
      [''/tp @s 20 67 10'']"
    using conjunct1 [OF T]
    by (simp add: demoPlan_enumerate demo_numStr demo_entityPosition distanceTo_gt4 offset_def
        show_simps)
  have b: "\<exists>rest. placeLoop demoEnv (Vec3 10 64 10) 0 (length demoPlan) demoPlan =
         placeLoop demoEnv (Vec3 10 64 10) 0 (length demoPlan) (take 0 demoPlan)
         @ [LookAt (Vec3 10 64 10), Chat ''/setblock 10 64 10 stone replace''] @ rest"
    using conjunct2 [OF T, THEN spec, of 0]
    by (simp add: Let_def demoPlan_nth demoPlan_length demo_numStr demo_entityPosition
        distanceTo_gt4 distanceTo_le4 offset_def show_simps)
  have c: "\<exists>rest. placeLoop demoEnv (Vec3 10 64 10) 0 (length demoPlan) demoPlan =
         placeLoop demoEnv (Vec3 10 64 10) 0 (length demoPlan) (take 2 demoPlan)
         @ [Chat ''/tp @s 20 67 10'', WaitForTicks 20]
         @ [LookAt (Vec3 20 65 10), Chat ''/setblock 20 65 10 oak_planks replace''] @ rest"
    using conjunct2 [OF T, THEN spec, of 2]
    by (simp add: Let_def demoPlan_nth demoPlan_length demo_numStr demo_entityPosition
        distanceTo_gt4 distanceTo_le4 offset_def show_simps)
  from a b c show ?thesis by blast
qed

text \<open>
  C3. The run without coordinates and without a player in sight, evaluated: after the
  origin-resolution step it has logged and chatted the abort and issued no placement
  command, and there it stops. It ends with neither \<open>bot.quit()\<close>, which the normal path
  calls, nor \<open>process.exit\<close>: the bot is left connected, so the process does not exit.
\<close>

theorem no_player_run_neither_quits_nor_exits:
  "script lonelyEnv [''node'', ''index.js'', ''demo''] =
     [ConsoleLog ''Loading plan from: decoration.json for project: demo'',
      ConsoleLog ''Found 3 instructions.'',
      CreateBot,
      ConsoleLog msgJoined,
      Chat ''/gamemode creative'',
      WaitForTicks 20,
      Chat msgStart,
      ConsoleLog ''No player found and no coordinates provided.'',
      Chat msgNoPlayer]
   \<and> placements (script lonelyEnv [''node'', ''index.js'', ''demo'']) = []
   \<and> Quit \<notin> set (script lonelyEnv [''node'', ''index.js'', ''demo''])"
proof -
  have "script lonelyEnv [''node'', ''index.js'', ''demo''] =
     [ConsoleLog ''Loading plan from: decoration.json for project: demo'',
      ConsoleLog ''Found 3 instructions.'',
      CreateBot,
      ConsoleLog msgJoined,
      Chat ''/gamemode creative'',
      WaitForTicks 20,
      Chat msgStart,
      ConsoleLog ''No player found and no coordinates provided.'',
      Chat msgNoPlayer]"
    by (simp add: script_def decorationFile_def projectDir_def targetFileName_def orElse_def
        lonelyEnv_def demoEnv_def joinPath_def instructionsOf_def demoPlan_def onSpawn_def
        executePlan_def resolveOrigin_def truthy_def show_simps argvAt_numeral)
  then show ?thesis
    by (simp add: msgStart_def msgNoPlayer_def)
qed

text \<open>
  C4 (as amended). If the parsed plan file is an object without an \<open>instructions\<close> field,
  or with an empty \<open>instructions\<close> list, the loader yields the empty plan and no error; a
  run on the empty plan issues no placement command; and whenever the origin is resolved
  (three coordinates given, or a player found) the run is the origin-resolution events
  followed at once by the final wait, the completion message and the disconnect.
\<close>

theorem empty_plan_completes_when_origin_resolved:
  "(plan = PlanObject None \<or> plan = PlanObject (Some [])) \<longrightarrow>
     instructionsOf plan = Inr []
     \<and> placements (executePlan e argX argY argZ []) = []
     \<and> ((truthy argX \<and> truthy argY \<and> truthy argZ) \<or> nearestPlayer e \<noteq> None \<longrightarrow>
          executePlan e argX argY argZ [] =
            Chat msgStart # fst (resolveOrigin e argX argY argZ)
              @ [WaitForTicks 4, Chat msgDone, Quit])"
proof (intro impI conjI)
  assume "plan = PlanObject None \<or> plan = PlanObject (Some [])"
  then show "instructionsOf plan = Inr []"
    by (auto simp add: instructionsOf_def)
next
  show "placements (executePlan e argX argY argZ []) = []"
    by (simp add: placements_executePlan split: option.splits)
next
  assume "(truthy argX \<and> truthy argY \<and> truthy argZ) \<or> nearestPlayer e \<noteq> None"
  then have "snd (resolveOrigin e argX argY argZ) \<noteq> None"
    by (auto simp add: resolveOrigin_def Let_def split: option.splits)
  then obtain evs origin where "resolveOrigin e argX argY argZ = (evs, Some origin)"
    by (cases "resolveOrigin e argX argY argZ") auto
  then show "executePlan e argX argY argZ [] =
      Chat msgStart # fst (resolveOrigin e argX argY argZ) @ [WaitForTicks 4, Chat msgDone, Quit]"
    by (simp add: executePlan_def)
qed

theorem empty_plan_completes_when_origin_resolved_witness:
  "instructionsOf (PlanObject None) = Inr []
   \<and> placements (executePlan demoEnv None None None []) = []
   \<and> executePlan demoEnv None None None [] =
       Chat msgStart # fst (resolveOrigin demoEnv None None None)
         @ [WaitForTicks 4, Chat msgDone, Quit]"
proof -
  have p: "nearestPlayer demoEnv \<noteq> None"
    by (simp add: demoEnv_def)
  show ?thesis
    using empty_plan_completes_when_origin_resolved [of "PlanObject None" demoEnv None None None] p
    by blast
qed

text \<open>
  C4 as stated fails: on a plan file without \<open>instructions\<close>, with no coordinates and no
  player in sight, the run stops at the abort message, with no completion message and no
  disconnect.
\<close>

theorem empty_plan_without_player_counterexample:
  "instructionsOf (PlanObject None) = Inr []
   \<and> executePlan lonelyEnv None None None [] =
       [Chat msgStart, ConsoleLog ''No player found and no coordinates provided.'',
        Chat msgNoPlayer]
   \<and> Chat msgDone \<notin> set (executePlan lonelyEnv None None None [])
   \<and> Quit \<notin> set (executePlan lonelyEnv None None None [])"
  by (simp add: instructionsOf_def executePlan_def resolveOrigin_def truthy_def lonelyEnv_def
        demoEnv_def msgStart_def msgNoPlayer_def msgDone_def)

text \<open>
  C5. Without a project name (absent or empty) the script prints the usage diagnostic to
  standard error and exits with code 1; with a project name whose plan file does not exist
  at the resolved path it prints the file-not-found diagnostic and exits with code 1. In
  both cases that is the whole run: no bot is created and no placement command is issued.
\<close>

theorem missing_input_aborts_before_connecting:
  "(argvAt argv 2 = None \<or> argvAt argv 2 = Some [] \<longrightarrow>
      script e argv = [ConsoleError ''Please provide a project name argument.'', ProcessExit 1]
      \<and> CreateBot \<notin> set (script e argv) \<and> placements (script e argv) = [])
   \<and> (argvAt argv 2 = Some projectName \<and> projectName \<noteq> []
        \<and> \<not> existsSync e (decorationFile e projectName (argvAt argv 6)) \<longrightarrow>
        script e argv =
          [ConsoleError (''File not found: '' @ decorationFile e projectName (argvAt argv 6)),
           ProcessExit 1]
        \<and> CreateBot \<notin> set (script e argv) \<and> placements (script e argv) = [])"
  by (auto simp add: script_def Let_def split: option.splits)

theorem missing_input_aborts_before_connecting_witness:
  "script demoEnv [''node'', ''index.js''] =
     [ConsoleError ''Please provide a project name argument.'', ProcessExit 1]
   \<and> script demoEnv [''node'', ''index.js'', ''ghost''] =
     [ConsoleError ''File not found: /srv/AI_Carpenter_Bot/../projects/ghost/decoration.json'',
      ProcessExit 1]
   \<and> CreateBot \<notin> set (script demoEnv [''node'', ''index.js'', ''ghost''])"
proof -
  have g: "decorationFile demoEnv ''ghost'' None =
      ''/srv/AI_Carpenter_Bot/../projects/ghost/decoration.json''"
    by (simp add: decorationFile_def projectDir_def targetFileName_def orElse_def demoEnv_def
        joinPath_def)
  have x: "\<not> existsSync demoEnv ''/srv/AI_Carpenter_Bot/../projects/ghost/decoration.json''"
    by (simp add: demoEnv_def)
  have a: "script demoEnv [''node'', ''index.js''] =
     [ConsoleError ''Please provide a project name argument.'', ProcessExit 1]"
    using missing_input_aborts_before_connecting
      [where argv = "[''node'', ''index.js'']" and e = demoEnv, THEN conjunct1]
    by (simp add: argvAt_numeral)
  have b: "script demoEnv [''node'', ''index.js'', ''ghost''] =
     [ConsoleError ''File not found: /srv/AI_Carpenter_Bot/../projects/ghost/decoration.json'',
      ProcessExit 1]
     \<and> CreateBot \<notin> set (script demoEnv [''node'', ''index.js'', ''ghost''])"
    using missing_input_aborts_before_connecting
      [where argv = "[''node'', ''index.js'', ''ghost'']" and e = demoEnv
        and projectName = "''ghost''", THEN conjunct2] g x
    by (simp add: argvAt_numeral)
  from a b show ?thesis by simp
qed

text \<open>
  C6 (as amended). For every plan of 12 instructions the loop logs a progress line exactly
  at those of the indices 1, 5, 10 and 12 (counted over all instructions, in list order)
  whose instruction is a placement (action \<open>setblock\<close> or \<open>place\<close>), each line carrying the
  index, the total and the placement command; so when the instructions at 1, 5, 10 and 12
  are all placements, the lines are exactly those four.
\<close>

theorem progress_lines_of_twelve:
  "length instructions = 12 \<longrightarrow>
     consoleLogs (placeLoop e origin 0 (length instructions) instructions) =
       map (\<lambda>k. ''['' @ numStr e (real k) @ ''/'' @ numStr e 12 @ ''] ''
                  @ ''/setblock '' @ numStr e (vx origin + xoff (instructions ! (k - 1)))
                  @ '' '' @ numStr e (vy origin + yoff (instructions ! (k - 1)))
                  @ '' '' @ numStr e (vz origin + zoff (instructions ! (k - 1)))
                  @ '' '' @ block (instructions ! (k - 1)) @ '' replace'')
         (filter (\<lambda>k. action (instructions ! (k - 1)) = ''setblock''
                        \<or> action (instructions ! (k - 1)) = ''place'')
            [1, 5, 10, 12])"
proof
  assume len: "length instructions = 12"
  obtain a0 a1 a2 a3 a4 a5 a6 a7 a8 a9 a10 a11
    where xs: "instructions = [a0, a1, a2, a3, a4, a5, a6, a7, a8, a9, a10, a11]"
    using length_twelve [OF len] by blast
  show "consoleLogs (placeLoop e origin 0 (length instructions) instructions) =
       map (\<lambda>k. ''['' @ numStr e (real k) @ ''/'' @ numStr e 12 @ ''] ''
                  @ ''/setblock '' @ numStr e (vx origin + xoff (instructions ! (k - 1)))
                  @ '' '' @ numStr e (vy origin + yoff (instructions ! (k - 1)))
                  @ '' '' @ numStr e (vz origin + zoff (instructions ! (k - 1)))
                  @ '' '' @ block (instructions ! (k - 1)) @ '' replace'')
         (filter (\<lambda>k. action (instructions ! (k - 1)) = ''setblock''
                        \<or> action (instructions ! (k - 1)) = ''place'')
            [1, 5, 10, 12])"
    unfolding consoleLogs_placeLoop setblockCmd_offset isPlacement_def
    unfolding xs by simp
qed

theorem progress_lines_of_twelve_witness:
  "length rowPlan = 12
   \<and> consoleLogs (placeLoop demoEnv (Vec3 10 64 10) 0 (length rowPlan) rowPlan) =
       [''[1/12] /setblock 10 64 10 stone replace'',
        ''[5/12] /setblock 14 64 10 stone replace'',
        ''[10/12] /setblock 19 64 10 stone replace'',
        ''[12/12] /setblock 21 64 10 stone replace'']"
  using progress_lines_of_twelve [of rowPlan demoEnv "Vec3 10 64 10"]
  by (simp add: rowPlan_facts stoneAt_def demo_numStr show_simps)

text \<open>
  C6 as stated fails: in a plan of 12 instructions whose fifth entry is an annotation, no
  progress line is logged at index 5.
\<close>

theorem progress_skips_annotation_counterexample:
  "length gappedPlan = 12
   \<and> consoleLogs (placeLoop demoEnv (Vec3 10 64 10) 0 12 gappedPlan) =
       [''[1/12] /setblock 10 64 10 stone replace'',
        ''[10/12] /setblock 19 64 10 stone replace'',
        ''[12/12] /setblock 21 64 10 stone replace'']"
  by (simp add: gappedPlan_def stoneAt_def noteAt_def Let_def setblockCmd_def offset_def
        demo_numStr show_simps)

text \<open>
  C7. Origin resolution takes one of two ways. With three coordinates given, the origin is
  the vector of the three arguments as \<open>parseFloat\<close> reads them, whatever their values.
  Otherwise it is the nearest player's position with each coordinate floored, and when
  there is no player no origin is set and no instruction is acted on. Once an origin is
  set, the run is the origin-resolution events, then the loop run with that one origin,
  then the completion; every position the bot looks at is that origin plus the offset of a
  placement instruction.
\<close>

theorem origin_resolved_once:
  "(argX = Some sx \<and> sx \<noteq> [] \<and> argY = Some sy \<and> sy \<noteq> [] \<and> argZ = Some sz \<and> sz \<noteq> [] \<longrightarrow>
      snd (resolveOrigin e argX argY argZ) =
        Some (Vec3 (parseFloat e sx) (parseFloat e sy) (parseFloat e sz)))
   \<and> (\<not> (truthy argX \<and> truthy argY \<and> truthy argZ) \<and> nearestPlayer e = Some target \<longrightarrow>
        snd (resolveOrigin e argX argY argZ) =
          Some (Vec3 (of_int \<lfloor>vx (position target)\<rfloor>) (of_int \<lfloor>vy (position target)\<rfloor>)
                     (of_int \<lfloor>vz (position target)\<rfloor>)))
   \<and> (\<not> (truthy argX \<and> truthy argY \<and> truthy argZ) \<and> nearestPlayer e = None \<longrightarrow>
        snd (resolveOrigin e argX argY argZ) = None
        \<and> lookAts (executePlan e argX argY argZ instructions) = [])
   \<and> (snd (resolveOrigin e argX argY argZ) = Some origin \<longrightarrow>
        executePlan e argX argY argZ instructions =
          Chat msgStart # fst (resolveOrigin e argX argY argZ)
            @ placeLoop e origin 0 (length instructions) instructions
            @ [WaitForTicks 4, Chat msgDone, Quit]
        \<and> lookAts (executePlan e argX argY argZ instructions) =
            map (\<lambda>i. Vec3 (vx origin + xoff i) (vy origin + yoff i) (vz origin + zoff i))
              (filter (\<lambda>i. action i = ''setblock'' \<or> action i = ''place'') instructions))"
proof (intro conjI impI)
  assume "argX = Some sx \<and> sx \<noteq> [] \<and> argY = Some sy \<and> sy \<noteq> [] \<and> argZ = Some sz \<and> sz \<noteq> []"
  then show "snd (resolveOrigin e argX argY argZ) =
        Some (Vec3 (parseFloat e sx) (parseFloat e sy) (parseFloat e sz))"
    by (simp add: resolveOrigin_def Let_def truthy_def orElse_def)
next
  assume "\<not> (truthy argX \<and> truthy argY \<and> truthy argZ) \<and> nearestPlayer e = Some target"
  then show "snd (resolveOrigin e argX argY argZ) =
          Some (Vec3 (of_int \<lfloor>vx (position target)\<rfloor>) (of_int \<lfloor>vy (position target)\<rfloor>)
                     (of_int \<lfloor>vz (position target)\<rfloor>))"
    by (simp add: resolveOrigin_derived floored_def)
next
  assume a: "\<not> (truthy argX \<and> truthy argY \<and> truthy argZ) \<and> nearestPlayer e = None"
  then show n: "snd (resolveOrigin e argX argY argZ) = None"
    by (simp add: resolveOrigin_derived)
  then show "lookAts (executePlan e argX argY argZ instructions) = []"
    by (simp add: lookAts_executePlan)
next
  assume o: "snd (resolveOrigin e argX argY argZ) = Some origin"
  then show "executePlan e argX argY argZ instructions =
          Chat msgStart # fst (resolveOrigin e argX argY argZ)
            @ placeLoop e origin 0 (length instructions) instructions
            @ [WaitForTicks 4, Chat msgDone, Quit]"
    by (cases "resolveOrigin e argX argY argZ") (simp add: executePlan_resolved)
  from o show "lookAts (executePlan e argX argY argZ instructions) =
            map (\<lambda>i. Vec3 (vx origin + xoff i) (vy origin + yoff i) (vz origin + zoff i))
              (filter (\<lambda>i. action i = ''setblock'' \<or> action i = ''place'') instructions)"
    by (simp add: lookAts_executePlan isPlacement_eq offset_def)
qed

theorem origin_resolved_once_witness:
  "snd (resolveOrigin demoEnv (Some ''10'') (Some ''64'') (Some ''10'')) = Some (Vec3 10 64 10)
   \<and> snd (resolveOrigin demoEnv None None None) = Some (Vec3 10 64 (- 3))
   \<and> snd (resolveOrigin lonelyEnv None None None) = None
   \<and> lookAts (executePlan demoEnv None None None demoPlan) = [Vec3 10 64 (- 3), Vec3 20 65 (- 3)]"
proof -
  have a: "snd (resolveOrigin demoEnv (Some ''10'') (Some ''64'') (Some ''10'')) =
      Some (Vec3 10 64 10)"
    using origin_resolved_once
      [of "Some ''10''" "''10''" "Some ''64''" "''64''" "Some ''10''" "''10''" demoEnv]
    by (simp add: demo_parseFloat readNum_values)
  have b: "snd (resolveOrigin demoEnv None None None) = Some (Vec3 10 64 (- 3))"
    using origin_resolved_once [of None _ None _ None _ demoEnv
        "\<lparr>username = ''steve'', position = Vec3 (21 / 2) 64 (- 5 / 2)\<rparr>"]
    by (simp add: truthy_def demo_player)
  have c: "snd (resolveOrigin lonelyEnv None None None) = None"
    using origin_resolved_once [of None _ None _ None _ lonelyEnv]
    by (simp add: truthy_def lonelyEnv_def)
  have d: "lookAts (executePlan demoEnv None None None demoPlan) =
      [Vec3 10 64 (- 3), Vec3 20 65 (- 3)]"
    using origin_resolved_once [where argX = None and argY = None and argZ = None
        and e = demoEnv and origin = "Vec3 10 64 (- 3)" and instructions = demoPlan,
        THEN conjunct2, THEN conjunct2, THEN conjunct2, THEN mp, OF b, THEN conjunct2]
    by (simp add: demoPlan_placements)
  from a b c d show ?thesis by simp
qed

text \<open>
  C8. The placement commands depend on the plan and the origin only. Two runs that print
  numbers alike and resolve the same origin, in whatever world (positions of the bot, a
  player or none, any arguments), issue the same sequence of placement commands, for the
  loop and for the whole of \<open>executePlan\<close>; and every placement command ends with the
  \<open>replace\<close> modifier.
\<close>

theorem placements_independent_of_world:
  "numStr e1 = numStr e2 \<longrightarrow>
     placements (placeLoop e1 origin 0 (length instructions) instructions) =
       placements (placeLoop e2 origin 0 (length instructions) instructions)
     \<and> (snd (resolveOrigin e1 argX1 argY1 argZ1) = Some origin
        \<and> snd (resolveOrigin e2 argX2 argY2 argZ2) = Some origin \<longrightarrow>
          placements (executePlan e1 argX1 argY1 argZ1 instructions) =
            placements (executePlan e2 argX2 argY2 argZ2 instructions)
          \<and> (\<forall>c \<in> set (placements (executePlan e1 argX1 argY1 argZ1 instructions)).
                \<exists>p. c = p @ '' replace''))"
  by (auto simp add: placements_placeLoop placements_executePlan setblockCmd_def)

theorem placements_independent_of_world_witness:
  "numStr demoEnv = numStr lonelyEnv
   \<and> entityPosition demoEnv 1 \<noteq> entityPosition lonelyEnv 1
   \<and> placements (executePlan demoEnv (Some ''10'') (Some ''64'') (Some ''10'') demoPlan) =
       placements (executePlan lonelyEnv (Some ''10'') (Some ''64'') (Some ''10'') demoPlan)"
proof -
  have n: "numStr demoEnv = numStr lonelyEnv"
    by (simp add: lonelyEnv_def)
  have p: "entityPosition demoEnv 1 \<noteq> entityPosition lonelyEnv 1"
    by (simp add: lonelyEnv_def demoEnv_def)
  have "placements (executePlan demoEnv (Some ''10'') (Some ''64'') (Some ''10'') demoPlan) =
       placements (executePlan lonelyEnv (Some ''10'') (Some ''64'') (Some ''10'') demoPlan)"
    using placements_independent_of_world [where ?e1.0 = demoEnv and ?e2.0 = lonelyEnv
        and origin = "Vec3 10 64 10" and instructions = demoPlan
        and ?argX1.0 = "Some ''10''" and ?argY1.0 = "Some ''64''" and ?argZ1.0 = "Some ''10''"
        and ?argX2.0 = "Some ''10''" and ?argY2.0 = "Some ''64''" and ?argZ2.0 = "Some ''10''"]
      n demo_origin_explicit lonely_origin_explicit
    by blast
  with n p show ?thesis by blast
qed

text \<open>
  C9. Unless all three coordinate arguments are present and non-empty, origin resolution
  and the whole run are what they are with no coordinates at all: the values given are
  ignored and nothing is printed about them. The nearest-player strategy is the one used:
  with a player in sight origin resolution is the teleport to that player and its messages,
  the origin is the player's floored position and every position looked at is that origin
  plus an offset; with no player it is the abort. In particular a command line with only
  one or two coordinates runs exactly as the same command line without them.
\<close>

theorem partial_coordinates_ignored:
  "(\<not> (truthy argX \<and> truthy argY \<and> truthy argZ) \<longrightarrow>
      resolveOrigin e argX argY argZ = resolveOrigin e None None None
      \<and> executePlan e argX argY argZ instructions = executePlan e None None None instructions
      \<and> (nearestPlayer e = Some target \<longrightarrow>
           resolveOrigin e argX argY argZ =
             ([ConsoleLog (''Syncing origin with player: '' @ username target),
               Chat (''/tp @s '' @ username target),
               WaitForTicks 40, StartFlying,
               ConsoleLog (''Origin set to: '' @ vecStr e (floored (position target))),
               Chat (msgOriginPlayer @ vecStr e (floored (position target)))],
              Some (Vec3 (of_int \<lfloor>vx (position target)\<rfloor>) (of_int \<lfloor>vy (position target)\<rfloor>)
                         (of_int \<lfloor>vz (position target)\<rfloor>)))
           \<and> lookAts (executePlan e argX argY argZ instructions) =
               map (\<lambda>i. Vec3 (of_int \<lfloor>vx (position target)\<rfloor> + xoff i)
                              (of_int \<lfloor>vy (position target)\<rfloor> + yoff i)
                              (of_int \<lfloor>vz (position target)\<rfloor> + zoff i))
                 (filter (\<lambda>i. action i = ''setblock'' \<or> action i = ''place'') instructions))
      \<and> (nearestPlayer e = None \<longrightarrow>
           resolveOrigin e argX argY argZ =
             ([ConsoleLog ''No player found and no coordinates provided.'', Chat msgNoPlayer],
              None)))
   \<and> (length argv \<le> 5 \<longrightarrow> script e argv = script e (take 3 argv))"
proof (intro conjI impI)
  assume "\<not> (truthy argX \<and> truthy argY \<and> truthy argZ)"
  then show "resolveOrigin e argX argY argZ = resolveOrigin e None None None"
    and "executePlan e argX argY argZ instructions = executePlan e None None None instructions"
    by (simp_all add: resolveOrigin_partial executePlan_partial)
next
  assume n: "\<not> (truthy argX \<and> truthy argY \<and> truthy argZ)"
    and p: "nearestPlayer e = Some target"
  from n p show "resolveOrigin e argX argY argZ =
             ([ConsoleLog (''Syncing origin with player: '' @ username target),
               Chat (''/tp @s '' @ username target),
               WaitForTicks 40, StartFlying,
               ConsoleLog (''Origin set to: '' @ vecStr e (floored (position target))),
               Chat (msgOriginPlayer @ vecStr e (floored (position target)))],
              Some (Vec3 (of_int \<lfloor>vx (position target)\<rfloor>) (of_int \<lfloor>vy (position target)\<rfloor>)
                         (of_int \<lfloor>vz (position target)\<rfloor>)))"
    by (auto simp add: resolveOrigin_def Let_def floored_def)
  from n p have "snd (resolveOrigin e argX argY argZ) = Some (floored (position target))"
    by (simp add: resolveOrigin_derived)
  then show "lookAts (executePlan e argX argY argZ instructions) =
               map (\<lambda>i. Vec3 (of_int \<lfloor>vx (position target)\<rfloor> + xoff i)
                              (of_int \<lfloor>vy (position target)\<rfloor> + yoff i)
                              (of_int \<lfloor>vz (position target)\<rfloor> + zoff i))
                 (filter (\<lambda>i. action i = ''setblock'' \<or> action i = ''place'') instructions)"
    by (simp add: lookAts_executePlan isPlacement_eq offset_def floored_def)
next
  assume n: "\<not> (truthy argX \<and> truthy argY \<and> truthy argZ)"
    and p: "nearestPlayer e = None"
  from n p show "resolveOrigin e argX argY argZ =
             ([ConsoleLog ''No player found and no coordinates provided.'', Chat msgNoPlayer],
              None)"
    by (auto simp add: resolveOrigin_def)
next
  assume len: "length argv \<le> 5"
  have z: "argvAt argv 5 = None" "argvAt argv 6 = None"
    using len by (simp_all add: argvAt_beyond)
  have t: "argvAt (take 3 argv) 2 = argvAt argv 2"
    by (simp add: argvAt_take)
  have u: "argvAt (take 3 argv) 3 = None" "argvAt (take 3 argv) 4 = None"
    "argvAt (take 3 argv) 5 = None" "argvAt (take 3 argv) 6 = None"
    by (simp_all add: argvAt_beyond)
  have "executePlan e (argvAt argv 3) (argvAt argv 4) None instrs =
      executePlan e None None None instrs" for instrs
    by (rule executePlan_partial) (simp add: truthy_None)
  then have x: "onSpawn e (argvAt argv 3) (argvAt argv 4) None instrs =
      onSpawn e None None None instrs" for instrs
    by (simp add: onSpawn_def)
  show "script e argv = script e (take 3 argv)"
    by (simp add: script_def Let_def z t u x del: take_all_iff split: option.splits sum.splits)
qed

theorem partial_coordinates_ignored_witness:
  "executePlan demoEnv (Some ''10'') (Some ''64'') None demoPlan =
     executePlan demoEnv None None None demoPlan
   \<and> resolveOrigin demoEnv (Some ''10'') (Some ''64'') None =
       ([ConsoleLog ''Syncing origin with player: steve'',
         Chat ''/tp @s steve'',
         WaitForTicks 40, StartFlying,
         ConsoleLog ''Origin set to: (10, 64, -3)'',
         Chat (msgOriginPlayer @ ''(10, 64, -3)'')],
        Some (Vec3 10 64 (- 3)))
   \<and> lookAts (executePlan demoEnv (Some ''10'') (Some ''64'') None demoPlan) =
       [Vec3 10 64 (- 3), Vec3 20 65 (- 3)]
   \<and> resolveOrigin lonelyEnv (Some ''10'') (Some ''64'') None =
       ([ConsoleLog ''No player found and no coordinates provided.'', Chat msgNoPlayer], None)
   \<and> script demoEnv [''node'', ''index.js'', ''demo'', ''10'', ''64''] =
       script demoEnv [''node'', ''index.js'', ''demo'']"
proof -
  have nt: "\<not> (truthy (Some ''10'') \<and> truthy (Some ''64'') \<and> truthy None)"
    by (simp add: truthy_None)
  note T = partial_coordinates_ignored [where argX = "Some ''10''" and argY = "Some ''64''"
      and argZ = None and e = demoEnv and instructions = demoPlan
      and target = "\<lparr>username = ''steve'', position = Vec3 (21 / 2) 64 (- 5 / 2)\<rparr>"
      and argv = "[''node'', ''index.js'', ''demo'', ''10'', ''64'']"]
  note D = T [THEN conjunct1, THEN mp, OF nt]
  have a: "executePlan demoEnv (Some ''10'') (Some ''64'') None demoPlan =
     executePlan demoEnv None None None demoPlan"
    using D by blast
  note P = D [THEN conjunct2, THEN conjunct2, THEN conjunct1, THEN mp, OF demo_player]
  have b: "resolveOrigin demoEnv (Some ''10'') (Some ''64'') None =
       ([ConsoleLog ''Syncing origin with player: steve'',
         Chat ''/tp @s steve'',
         WaitForTicks 40, StartFlying,
         ConsoleLog ''Origin set to: (10, 64, -3)'',
         Chat (msgOriginPlayer @ ''(10, 64, -3)'')],
        Some (Vec3 10 64 (- 3)))"
    using P [THEN conjunct1]
    by (simp add: floored_def vecStr_def demo_numStr show_simps)
  have c: "lookAts (executePlan demoEnv (Some ''10'') (Some ''64'') None demoPlan) =
       [Vec3 10 64 (- 3), Vec3 20 65 (- 3)]"
    using P [THEN conjunct2]
    by (simp add: demoPlan_placements)
  have lp: "nearestPlayer lonelyEnv = None"
    by (simp add: lonelyEnv_def)
  have d: "resolveOrigin lonelyEnv (Some ''10'') (Some ''64'') None =
       ([ConsoleLog ''No player found and no coordinates provided.'', Chat msgNoPlayer], None)"
    using partial_coordinates_ignored [where argX = "Some ''10''" and argY = "Some ''64''"
      and argZ = None and e = lonelyEnv, THEN conjunct1, THEN mp, OF nt,
      THEN conjunct2, THEN conjunct2, THEN conjunct2, THEN mp, OF lp] .
  have f: "script demoEnv [''node'', ''index.js'', ''demo'', ''10'', ''64''] =
       script demoEnv [''node'', ''index.js'', ''demo'']"
    using T [THEN conjunct2] by simp
  from a b c d f show ?thesis by blast
qed

text \<open>
  C10. With three coordinates given, the positions looked at and the \<open>/setblock\<close> commands
  carry the parsed coordinates plus the offsets as they are, with no flooring; only when
  the origin is taken from a player are the origin's coordinates floored.
\<close>

theorem explicit_origin_not_floored:
  "(argX = Some sx \<and> sx \<noteq> [] \<and> argY = Some sy \<and> sy \<noteq> [] \<and> argZ = Some sz \<and> sz \<noteq> [] \<longrightarrow>
      lookAts (executePlan e argX argY argZ instructions) =
        map (\<lambda>i. Vec3 (parseFloat e sx + xoff i) (parseFloat e sy + yoff i)
                       (parseFloat e sz + zoff i))
          (filter (\<lambda>i. action i = ''setblock'' \<or> action i = ''place'') instructions)
      \<and> placements (executePlan e argX argY argZ instructions) =
        map (\<lambda>i. ''/setblock '' @ numStr e (parseFloat e sx + xoff i) @ '' ''
                   @ numStr e (parseFloat e sy + yoff i) @ '' ''
                   @ numStr e (parseFloat e sz + zoff i) @ '' '' @ block i @ '' replace'')
          (filter (\<lambda>i. action i = ''setblock'' \<or> action i = ''place'') instructions))
   \<and> (\<not> (truthy argX \<and> truthy argY \<and> truthy argZ) \<and> nearestPlayer e = Some target \<longrightarrow>
        lookAts (executePlan e argX argY argZ instructions) =
          map (\<lambda>i. Vec3 (of_int \<lfloor>vx (position target)\<rfloor> + xoff i)
                         (of_int \<lfloor>vy (position target)\<rfloor> + yoff i)
                         (of_int \<lfloor>vz (position target)\<rfloor> + zoff i))
            (filter (\<lambda>i. action i = ''setblock'' \<or> action i = ''place'') instructions))"
proof (intro conjI impI)
  assume a: "argX = Some sx \<and> sx \<noteq> [] \<and> argY = Some sy \<and> sy \<noteq> [] \<and> argZ = Some sz \<and> sz \<noteq> []"
  then have o: "snd (resolveOrigin e argX argY argZ) =
      Some (Vec3 (parseFloat e sx) (parseFloat e sy) (parseFloat e sz))"
    by (simp add: resolveOrigin_def Let_def truthy_def orElse_def)
  show "lookAts (executePlan e argX argY argZ instructions) =
        map (\<lambda>i. Vec3 (parseFloat e sx + xoff i) (parseFloat e sy + yoff i)
                       (parseFloat e sz + zoff i))
          (filter (\<lambda>i. action i = ''setblock'' \<or> action i = ''place'') instructions)"
    by (simp add: lookAts_executePlan o isPlacement_eq offset_def)
  show "placements (executePlan e argX argY argZ instructions) =
        map (\<lambda>i. ''/setblock '' @ numStr e (parseFloat e sx + xoff i) @ '' ''
                   @ numStr e (parseFloat e sy + yoff i) @ '' ''
                   @ numStr e (parseFloat e sz + zoff i) @ '' '' @ block i @ '' replace'')
          (filter (\<lambda>i. action i = ''setblock'' \<or> action i = ''place'') instructions)"
    by (simp add: placements_executePlan o isPlacement_eq setblockCmd_offset)
next
  assume "\<not> (truthy argX \<and> truthy argY \<and> truthy argZ) \<and> nearestPlayer e = Some target"
  then have "snd (resolveOrigin e argX argY argZ) = Some (floored (position target))"
    by (simp add: resolveOrigin_derived)
  then show "lookAts (executePlan e argX argY argZ instructions) =
          map (\<lambda>i. Vec3 (of_int \<lfloor>vx (position target)\<rfloor> + xoff i)
                         (of_int \<lfloor>vy (position target)\<rfloor> + yoff i)
                         (of_int \<lfloor>vz (position target)\<rfloor> + zoff i))
            (filter (\<lambda>i. action i = ''setblock'' \<or> action i = ''place'') instructions)"
    by (simp add: lookAts_executePlan isPlacement_eq offset_def floored_def)
qed

theorem explicit_origin_not_floored_witness:
  "lookAts (executePlan demoEnv (Some ''10.5'') (Some ''64'') (Some ''10.25'') demoPlan) =
     [Vec3 (21 / 2) 64 (41 / 4), Vec3 (41 / 2) 65 (41 / 4)]
   \<and> placements (executePlan demoEnv (Some ''10.5'') (Some ''64'') (Some ''10.25'') demoPlan) =
     [''/setblock 10.5 64 10.25 stone replace'', ''/setblock 20.5 65 10.25 oak_planks replace'']
   \<and> lookAts (executePlan demoEnv (Some ''10.5'') None None demoPlan) =
     [Vec3 10 64 (- 3), Vec3 20 65 (- 3)]"
proof -
  have a: "lookAts (executePlan demoEnv (Some ''10.5'') (Some ''64'') (Some ''10.25'') demoPlan) =
     [Vec3 (21 / 2) 64 (41 / 4), Vec3 (41 / 2) 65 (41 / 4)]
   \<and> placements (executePlan demoEnv (Some ''10.5'') (Some ''64'') (Some ''10.25'') demoPlan) =
     [''/setblock 10.5 64 10.25 stone replace'', ''/setblock 20.5 65 10.25 oak_planks replace'']"
    using explicit_origin_not_floored [where argX = "Some ''10.5''" and sx = "''10.5''"
        and argY = "Some ''64''" and sy = "''64''" and argZ = "Some ''10.25''"
        and sz = "''10.25''" and e = demoEnv and instructions = demoPlan, THEN conjunct1]
    by (simp add: demoPlan_placements demo_parseFloat readNum_values demo_numStr show_simps)
  have b: "lookAts (executePlan demoEnv (Some ''10.5'') None None demoPlan) =
     [Vec3 10 64 (- 3), Vec3 20 65 (- 3)]"
    using explicit_origin_not_floored [where argX = "Some ''10.5''" and argY = None
        and argZ = None and e = demoEnv and instructions = demoPlan
        and target = "\<lparr>username = ''steve'', position = Vec3 (21 / 2) 64 (- 5 / 2)\<rparr>",
        THEN conjunct2]
    by (simp add: demoPlan_placements demo_player truthy_def)
  from a b show ?thesis by simp
qed

end
